theory Spec2Isabelle
  imports Complex_Main "HOL-Library.Sublist" "HOL-Library.Multiset"
begin

section \<open>Python strings\<close>

text \<open>
  A Python \<open>str\<close> is modelled as the list of the bytes of its UTF-8 encoding.
  Concatenation, \<open>str.join\<close> and the substring test \<open>in\<close> commute with the
  encoding, so the operations of the source act on the bytes as they act on the code
  points. The letters of the prompt template outside ASCII are written as their two
  UTF-8 bytes.
\<close>

definition NL :: string where
  "NL = [CHR 0x0A]"

text \<open>\<open>sep.join(xs)\<close>\<close>

fun join :: "string \<Rightarrow> string list \<Rightarrow> string" where
  "join sep [] = []"
| "join sep [x] = x"
| "join sep (x # y # ys) = x @ sep @ join sep (y # ys)"

text \<open>\<open>str(n)\<close> of a Python \<open>int\<close>: decimal digits, a minus sign when negative.\<close>

fun str_nat :: "nat \<Rightarrow> string" where
  "str_nat n =
     (if n < 10 then [''0123456789'' ! n]
      else str_nat (n div 10) @ [''0123456789'' ! (n mod 10)])"

declare str_nat.simps [simp del]

definition str_int :: "int \<Rightarrow> string" where
  "str_int i = (if i < 0 then ''-'' @ str_nat (nat (- i)) else str_nat (nat i))"

section \<open>The prompt formatter\<close>

text \<open>
  \<open>class WorkoutPrompt(BaseModel)\<close> of \<open>workout_generator.py\<close>; \<open>injuries\<close> is
  \<open>Optional[List[str]] = None\<close>.
\<close>

record WorkoutPrompt =
  goal :: string
  experience_level :: string
  equipment_available :: "string list"
  time_available :: int
  focus_areas :: "string list"
  injuries :: "string list option"

text \<open>
  The literal tail of the f-string: the lines from the blank line after the injuries
  line to the closing quotes. In an f-string \<open>{{\<close> and \<open>}}\<close> stand for one brace.
\<close>

definition json_structure :: string where
  \<open>json_structure =
     ''    '' @ NL @
     ''    Por favor, proporciona la rutina en formato JSON con la siguiente estructura:'' @ NL @
     ''    {'' @ NL @
     ''        "name": "Nombre de la rutina",'' @ NL @
     ''        "description": "Descripci'' @ [CHR 0xC3, CHR 0xB3] @ ''n detallada",'' @ NL @
     ''        "exercises": ['' @ NL @
     ''            {'' @ NL @
     ''                "name": "Nombre del ejercicio",'' @ NL @
     ''                "sets": n'' @ [CHR 0xC3, CHR 0xBA] @ ''mero_de_series,'' @ NL @
     ''                "reps": "rango_de_repeticiones",'' @ NL @
     ''                "rest": "tiempo_de_descanso",'' @ NL @
     ''                "notes": "notas_t'' @ [CHR 0xC3, CHR 0xA9] @ ''cnicas"'' @ NL @
     ''            }'' @ NL @
     ''        ],'' @ NL @
     ''        "tips": ["consejos_importantes"],'' @ NL @
     ''        "progression": ["sugerencias_de_progresi'' @ [CHR 0xC3, CHR 0xB3] @ ''n"]'' @ NL @
     ''    }'' @ NL @
     ''    ''\<close>

text \<open>
  \<open>', '.join(prompt.injuries) if prompt.injuries else 'Ninguna'\<close>: the condition is
  Python truthiness, false for \<open>None\<close> and for the empty list.
\<close>

definition injuries_text :: "string list option \<Rightarrow> string" where
  "injuries_text v =
     (case v of
        None \<Rightarrow> ''Ninguna''
      | Some [] \<Rightarrow> ''Ninguna''
      | Some (x # xs) \<Rightarrow> join '', '' (x # xs))"

definition format_workout_prompt :: "WorkoutPrompt \<Rightarrow> string" where
  "format_workout_prompt prompt =
     ''Genera una rutina de entrenamiento detallada con las siguientes especificaciones:    '' @ NL @
     ''    - Objetivo: '' @ goal prompt @ NL @
     ''    - Nivel de experiencia: '' @ experience_level prompt @ NL @
     ''    - Equipo disponible: '' @ join '', '' (equipment_available prompt) @ NL @
     ''    - Tiempo disponible: '' @ str_int (time_available prompt) @ '' minutos'' @ NL @
     ''    - '' @ [CHR 0xC3, CHR 0x81] @ ''reas de enfoque: '' @ join '', '' (focus_areas prompt) @ NL @
     ''    - Lesiones/Limitaciones: '' @ injuries_text (injuries prompt) @ NL @
     json_structure"

section \<open>Values, exceptions and the libraries the handlers call\<close>

text \<open>
  What \<open>json.loads\<close> returns. A JSON object becomes a Python \<open>dict\<close>: the pairs in
  insertion order, every key once. A Python \<open>float\<close> is a value of the type
  parameter \<open>'f\<close>: no handler computes with one.
\<close>

datatype 'f json =
    JNull
  | JBool bool
  | JInt int
  | JFloat 'f
  | JStr string
  | JArr "'f json list"
  | JObj "(string \<times> 'f json) list"

text \<open>
  The \<open>TypeError\<close>s the interpreter and the ORM raise on the paths of
  \<open>generate_workout\<close>: \<open>json.loads(None)\<close>; \<open>field in x\<close> for an \<open>x\<close> that is no
  container; \<open>**x\<close> for an \<open>x\<close> that is no mapping (both with the name of the
  type of \<open>x\<close>); a keyword given twice; a keyword the declarative constructor does
  not know.
\<close>

datatype type_error =
    LoadsNotStr
  | NotIterable string
  | NotAMapping string
  | MultipleValues string
  | InvalidKeyword string

text \<open>
  What \<open>json.loads\<close> raises on a \<open>str\<close>: \<open>JSONDecodeError\<close> for a text it cannot
  parse, \<open>RecursionError\<close> for a text nested deeper than the interpreter allows.
  Each carries the text \<open>str(e)\<close> gives.
\<close>

datatype loads_error =
    JSONDecodeError string
  | LoadsRecursionError string

text \<open>
  Exceptions that reach a handler of \<open>generate_workout\<close> or leave
  \<open>log_workout\<close>. \<open>ValueError\<close>, \<open>RecursionError\<close>, \<open>ClientError\<close> (anything the
  OpenAI client raises) and \<open>StorageError\<close> (anything the ORM or the database
  raises once the keywords of the constructor are checked: on setting an attribute,
  on \<open>add\<close>, \<open>commit\<close> or \<open>refresh\<close>) carry the text \<open>str(e)\<close> gives;
  \<open>HTTPException\<close> carries \<open>status_code\<close> and \<open>detail\<close>.
\<close>

datatype exn =
    ValueError string
  | TypeError type_error
  | RecursionError string
  | HTTPException int string
  | ClientError string
  | StorageError string

text \<open>
  Library behaviour the handlers depend on and the repository does not contain:
  \<^item> \<open>json_loads\<close>: \<open>json.loads\<close> on a \<open>str\<close>, the value or the exception. It
    accepts more than JSON: \<open>NaN\<close>, \<open>Infinity\<close> and \<open>-Infinity\<close> are floats to it;
  \<^item> \<open>inherited_attr\<close>: the names \<open>hasattr\<close> finds on a model class through
    \<open>Base\<close> (\<open>database.py\<close>) and \<open>object\<close>;
  \<^item> \<open>str_type_error\<close>: the message of an interpreter or ORM \<open>TypeError\<close>;
  \<^item> \<open>str_HTTPException\<close>: \<open>str(e)\<close> of an \<open>HTTPException\<close>, which depends on the
    version of the web framework;
  \<^item> \<open>string_column\<close>: what the database gives back for a value that is neither a
    \<open>str\<close> nor \<open>None\<close> and that it accepted in a \<open>String\<close> column;
  \<^item> \<open>json_column_number\<close>: what the database gives back for a number that is the
    whole value of a \<open>JSON\<close> column.
\<close>

record 'f externals =
  json_loads :: "string \<Rightarrow> loads_error + 'f json"
  inherited_attr :: "string \<Rightarrow> bool"
  str_type_error :: "type_error \<Rightarrow> string"
  str_HTTPException :: "int \<Rightarrow> string \<Rightarrow> string"
  string_column :: "'f json \<Rightarrow> 'f json"
  json_column_number :: "'f json \<Rightarrow> 'f json"

fun str_exn :: "'f externals \<Rightarrow> exn \<Rightarrow> string" where
  "str_exn ext (ValueError m) = m"
| "str_exn ext (TypeError t) = str_type_error ext t"
| "str_exn ext (RecursionError m) = m"
| "str_exn ext (HTTPException c d) = str_HTTPException ext c d"
| "str_exn ext (ClientError m) = m"
| "str_exn ext (StorageError m) = m"

section \<open>The stored records (\<open>models.py\<close>)\<close>

text \<open>
  Of \<open>User\<close> the handlers read \<open>id\<close> only. A \<open>WorkoutRoutine\<close> row has the columns
  \<open>id\<close>, \<open>user_id\<close>, \<open>name\<close>, \<open>description\<close>, \<open>exercises\<close>, \<open>tips\<close>,
  \<open>progression\<close> and \<open>created_at\<close>. \<open>user_id\<close> is a nullable foreign key: \<open>None\<close> is
  SQL \<open>NULL\<close>, which no comparison \<open>user_id == current_user.id\<close> matches. The five
  data columns hold JSON values: no code of the repository converts what the model
  returned, and a \<open>String\<close> column holds what the database made of it.
  \<open>updated_at\<close> and the relationships are read by no handler and are left out.
  Timestamps are integers (ticks of the database clock). Field names carry the
  record's initial, because \<open>id\<close> and \<open>user_id\<close> occur in several classes.
\<close>

record User =
  u_id :: int

record 'f WorkoutRoutine =
  r_id :: int
  r_user_id :: "int option"
  r_name :: "'f json"
  r_description :: "'f json"
  r_exercises :: "'f json"
  r_tips :: "'f json"
  r_progression :: "'f json"
  r_created_at :: int

text \<open>
  \<open>class WorkoutLogCreate(BaseModel)\<close>, the body of a log request. Its field
  \<open>notes\<close> is \<open>log_notes\<close> here: \<open>notes\<close> is a keyword of the theory language.
\<close>

record 'f WorkoutLogCreate =
  routine_id :: int
  completed_exercises :: "(string \<times> 'f json) list list"
  log_notes :: "string option"
  duration :: 'f

record 'f WorkoutLog =
  l_id :: int
  l_user_id :: int
  l_routine_id :: int
  l_completed_exercises :: "(string \<times> 'f json) list list"
  l_notes :: "string option"
  l_duration :: 'f
  l_created_at :: int

text \<open>The two tables, each in the order the database scans it.\<close>

record 'f db =
  workout_routines :: "'f WorkoutRoutine list"
  workout_logs :: "'f WorkoutLog list"

text \<open>
  What happens once the keywords of a constructor are checked is decided by the ORM
  and the database: either an exception, and nothing is stored (the ORM refuses a
  value for a relationship attribute while the constructor sets it, or
  \<open>db.add(x); db.commit(); db.refresh(x)\<close> fails), or the row is inserted and read
  back with its primary key and its \<open>created_at\<close> (the autoincrement and
  \<open>server_default=func.now()\<close>, unless the object carries values of its own that
  the database accepts). The outcome is an input of the handler.
\<close>

datatype storage_outcome =
    StorageRaises string
  | Stored int int

section \<open>\<open>generate_workout\<close>\<close>

definition required_fields :: "string list" where
  "required_fields = [''name'', ''description'', ''exercises'', ''tips'', ''progression'']"

text \<open>
  \<open>field in workout_data\<close>: key membership for a \<open>dict\<close>, element equality for a
  \<open>list\<close> (a \<open>str\<close> equals only a \<open>str\<close>), substring for a \<open>str\<close>, a
  \<open>TypeError\<close> for \<open>None\<close>, \<open>bool\<close>, \<open>int\<close> and \<open>float\<close>.
\<close>

fun type_name :: "'f json \<Rightarrow> string" where
  "type_name JNull = ''NoneType''"
| "type_name (JBool b) = ''bool''"
| "type_name (JInt i) = ''int''"
| "type_name (JFloat x) = ''float''"
| "type_name (JStr s) = ''str''"
| "type_name (JArr xs) = ''list''"
| "type_name (JObj kvs) = ''dict''"

fun py_in :: "string \<Rightarrow> 'f json \<Rightarrow> exn + bool" where
  "py_in field (JObj kvs) = Inr (field \<in> set (map fst kvs))"
| "py_in field (JArr xs) = Inr (JStr field \<in> set xs)"
| "py_in field (JStr s) = Inr (sublist field s)"
| "py_in field v = Inl (TypeError (NotIterable (type_name v)))"

text \<open>
  Lines 121 to 123, the loop over the required fields:
  \<^verbatim>\<open>for field in required_fields:
    if field not in workout_data:
        raise ValueError(f"Missing required field: {field}")\<close>
\<close>

fun check_required :: "string list \<Rightarrow> 'f json \<Rightarrow> exn + unit" where
  "check_required [] workout_data = Inr ()"
| "check_required (field # rest) workout_data =
     (case py_in field workout_data of
        Inl e \<Rightarrow> Inl e
      | Inr present \<Rightarrow>
          if \<not> present then Inl (ValueError (''Missing required field: '' @ field))
          else check_required rest workout_data)"

text \<open>
  The names the class body of \<open>WorkoutRoutine\<close> binds, and \<open>hasattr\<close> on the class.
\<close>

definition WorkoutRoutine_attrs :: "string list" where
  "WorkoutRoutine_attrs =
     [''__tablename__'', ''id'', ''user_id'', ''name'', ''description'', ''exercises'',
      ''tips'', ''progression'', ''created_at'', ''updated_at'', ''user'', ''workout_logs'']"

definition hasattr_WorkoutRoutine :: "'f externals \<Rightarrow> string \<Rightarrow> bool" where
  "hasattr_WorkoutRoutine ext k \<longleftrightarrow> k \<in> set WorkoutRoutine_attrs \<or> inherited_attr ext k"

text \<open>
  \<open>WorkoutRoutine(user_id=current_user.id, **workout_data)\<close>. The call needs a
  mapping after \<open>**\<close> and refuses a second \<open>user_id\<close>; the declarative constructor
  then goes through the keywords in order and raises at the first one that is not an
  attribute of the class. The result is the keywords the new object carries. An
  exception from setting an attribute that passed the check (the relationship
  \<open>user\<close> takes no JSON value but \<open>None\<close>, \<open>workout_logs\<close> none but the empty
  list) is part of the storage outcome. The constructor sets each keyword as soon as
  it has checked it; here the checks come first, so an object with both an unknown
  key and a refused value gets the exception of the check. The status and the
  stored state are the same either way.
\<close>

definition new_WorkoutRoutine ::
  "'f externals \<Rightarrow> 'f json \<Rightarrow> exn + (string \<times> 'f json) list" where
  "new_WorkoutRoutine ext workout_data =
     (case workout_data of
        JObj kvs \<Rightarrow>
          if ''user_id'' \<in> set (map fst kvs) then Inl (TypeError (MultipleValues ''user_id''))
          else (case find (\<lambda>k. \<not> hasattr_WorkoutRoutine ext k) (map fst kvs) of
                  Some k \<Rightarrow> Inl (TypeError (InvalidKeyword k))
                | None \<Rightarrow> Inr kvs)
      | v \<Rightarrow> Inl (TypeError (NotAMapping (type_name v))))"

text \<open>A column of the new object: the keyword's value, \<open>None\<close> when it was not given.\<close>

definition column :: "(string \<times> 'f json) list \<Rightarrow> string \<Rightarrow> 'f json" where
  "column kvs k = (case map_of kvs k of Some v \<Rightarrow> v | None \<Rightarrow> JNull)"

text \<open>
  What \<open>db.refresh\<close> reads back from a \<open>String\<close> column (\<open>name\<close>,
  \<open>description\<close>): a \<open>str\<close> and \<open>None\<close> as they were written, any other value as
  the database converted it. A \<open>JSON\<close> column (\<open>exercises\<close>, \<open>tips\<close>,
  \<open>progression\<close>) is written as the text \<open>json.dumps\<close> gives and read with
  \<open>json.loads\<close>, which gives back the value \<open>json.loads\<close> had produced, unless
  the whole value is a number: its text is a number to the database too, which may
  store it as one (SQLite returns the float 5.0 as the int 5).
\<close>

definition text_column :: "'f externals \<Rightarrow> 'f json \<Rightarrow> 'f json" where
  "text_column ext v =
     (case v of JStr s \<Rightarrow> JStr s | JNull \<Rightarrow> JNull | _ \<Rightarrow> string_column ext v)"

definition json_column :: "'f externals \<Rightarrow> 'f json \<Rightarrow> 'f json" where
  "json_column ext v =
     (case v of
        JInt i \<Rightarrow> json_column_number ext v
      | JFloat x \<Rightarrow> json_column_number ext v
      | _ \<Rightarrow> v)"

text \<open>
  Lines 126 to 134: construct the routine, store it, return it as \<open>db.refresh\<close>
  read it back. The foreign key is the caller's id, unless the object has a keyword
  \<open>user\<close>: that sets the relationship \<open>user\<close> of line 80 of \<open>models.py\<close>, from
  which the ORM takes the foreign key when it writes the row, and the one JSON value
  the relationship takes is \<open>None\<close>, which makes the foreign key \<open>NULL\<close>.
\<close>

definition store_routine ::
  "'f externals \<Rightarrow> storage_outcome \<Rightarrow> User \<Rightarrow> 'f db \<Rightarrow> 'f json \<Rightarrow>
   (exn + 'f WorkoutRoutine) \<times> 'f db" where
  "store_routine ext storage current_user db workout_data =
     (case new_WorkoutRoutine ext workout_data of
        Inl e \<Rightarrow> (Inl e, db)
      | Inr kvs \<Rightarrow>
          (case storage of
             StorageRaises m \<Rightarrow> (Inl (StorageError m), db)
           | Stored new_id now \<Rightarrow>
               let routine =
                 \<lparr> r_id = new_id,
                   r_user_id =
                     (if ''user'' \<in> set (map fst kvs) then None else Some (u_id current_user)),
                   r_name = text_column ext (column kvs ''name''),
                   r_description = text_column ext (column kvs ''description''),
                   r_exercises = json_column ext (column kvs ''exercises''),
                   r_tips = json_column ext (column kvs ''tips''),
                   r_progression = json_column ext (column kvs ''progression''),
                   r_created_at = now \<rparr>
               in (Inr routine, db\<lparr>workout_routines := workout_routines db @ [routine]\<rparr>)))"

text \<open>
  Lines 116 to 141, the inner \<open>try\<close>: parse, check the required fields, store. Its
  handler catches \<open>json.JSONDecodeError\<close> only and raises the parse error of the
  endpoint; a \<open>RecursionError\<close> of \<open>json.loads\<close> passes it, and
  \<open>json.loads(None)\<close> (a completion without content) is a \<open>TypeError\<close>.
\<close>

definition parse_validate_store ::
  "'f externals \<Rightarrow> storage_outcome \<Rightarrow> User \<Rightarrow> 'f db \<Rightarrow> string option \<Rightarrow>
   (exn + 'f WorkoutRoutine) \<times> 'f db" where
  "parse_validate_store ext storage current_user db content =
     (case content of
        None \<Rightarrow> (Inl (TypeError LoadsNotStr), db)
      | Some raw_text \<Rightarrow>
          (case json_loads ext raw_text of
             Inl (JSONDecodeError m) \<Rightarrow>
               (Inl (HTTPException 500 ''Error parsing AI response''), db)
           | Inl (LoadsRecursionError m) \<Rightarrow> (Inl (RecursionError m), db)
           | Inr workout_data \<Rightarrow>
               (case check_required required_fields workout_data of
                  Inl e \<Rightarrow> (Inl e, db)
                | Inr u \<Rightarrow> store_routine ext storage current_user db workout_data)))"

text \<open>
  The handler. \<open>chat\<close> is the remote model: given the user message it returns
  \<open>response.choices[0].message.content\<close> (possibly \<open>None\<close>) or the call raises. The
  outer \<open>except Exception\<close> (lines 143 to 148) catches every exception of the body,
  the \<open>HTTPException\<close> of the inner handler included, and raises status 500 with
  \<open>f"Error generating workout: {str(e)}"\<close>. The \<open>print\<close> calls are left out.
\<close>

definition generate_workout ::
  "'f externals \<Rightarrow> (string \<Rightarrow> string + string option) \<Rightarrow> storage_outcome \<Rightarrow>
   WorkoutPrompt \<Rightarrow> User \<Rightarrow> 'f db \<Rightarrow> (exn + 'f WorkoutRoutine) \<times> 'f db" where
  "generate_workout ext chat storage prompt current_user db =
     (case (case chat (format_workout_prompt prompt) of
              Inl m \<Rightarrow> (Inl (ClientError m), db)
            | Inr content \<Rightarrow> parse_validate_store ext storage current_user db content) of
        (Inl e, db') \<Rightarrow>
          (Inl (HTTPException 500 (''Error generating workout: '' @ str_exn ext e)), db')
      | (Inr routine, db') \<Rightarrow> (Inr routine, db'))"

section \<open>\<open>log_workout\<close> and the two list handlers\<close>

text \<open>
  \<open>db.query(WorkoutRoutine).filter(id == log.routine_id, user_id ==
  current_user.id).first()\<close> is the first row of the table with both properties, or
  \<open>None\<close>; \<open>if not routine\<close> then raises the 404. No \<open>try\<close> surrounds the write,
  so an exception of the storage layer leaves the handler as it is. The parameter
  \<open>log\<close> of the source is \<open>log_input\<close> here.
\<close>

definition log_workout ::
  "storage_outcome \<Rightarrow> 'f WorkoutLogCreate \<Rightarrow> User \<Rightarrow> 'f db \<Rightarrow>
   (exn + 'f WorkoutLog) \<times> 'f db" where
  "log_workout storage log_input current_user db =
     (case find (\<lambda>r. r_id r = routine_id log_input \<and> r_user_id r = Some (u_id current_user))
             (workout_routines db) of
        None \<Rightarrow> (Inl (HTTPException 404 ''Workout routine not found''), db)
      | Some routine \<Rightarrow>
          (case storage of
             StorageRaises m \<Rightarrow> (Inl (StorageError m), db)
           | Stored new_id now \<Rightarrow>
               let workout_log =
                 \<lparr> l_id = new_id, l_user_id = u_id current_user,
                   l_routine_id = routine_id log_input,
                   l_completed_exercises = completed_exercises log_input,
                   l_notes = log_notes log_input, l_duration = duration log_input,
                   l_created_at = now \<rparr>
               in (Inr workout_log, db\<lparr>workout_logs := workout_logs db @ [workout_log]\<rparr>)))"

text \<open>
  \<open>filter(user_id == current_user.id).order_by(created_at.desc()).all()\<close>: the
  caller's rows, the largest \<open>created_at\<close> first. Rows with equal \<open>created_at\<close> stay
  in scan order here; the database may return them in any order.
\<close>

definition get_workout_history :: "User \<Rightarrow> 'f db \<Rightarrow> 'f WorkoutLog list" where
  "get_workout_history current_user db =
     sort_key (\<lambda>l. - l_created_at l)
       (filter (\<lambda>l. l_user_id l = u_id current_user) (workout_logs db))"

definition get_workout_routines :: "User \<Rightarrow> 'f db \<Rightarrow> 'f WorkoutRoutine list" where
  "get_workout_routines current_user db =
     sort_key (\<lambda>r. - r_created_at r)
       (filter (\<lambda>r. r_user_id r = Some (u_id current_user)) (workout_routines db))"

section \<open>The module-level client\<close>


section \<open>Concrete inputs\<close>

text \<open>
  The floats of the concrete inputs: the finite ones, and the three special values
  \<open>json.loads\<close> makes of \<open>Infinity\<close>, \<open>-Infinity\<close> and \<open>NaN\<close>.
\<close>

datatype pyfloat =
    Finite real
  | PosInfinity
  | NegInfinity
  | NaN

text \<open>
  A necessary condition of RFC 8259 for a text to be JSON: after optional whitespace
  (space, tab, line feed, carriage return) comes a value, and a value begins with
  one of \<open>{\<close>, \<open>[\<close>, a double quote, \<open>-\<close>, a digit, or the first letter of
  \<open>true\<close>, \<open>false\<close> or \<open>null\<close>. A text that fails it is not valid JSON.
\<close>

definition json_whitespace :: "char \<Rightarrow> bool" where
  "json_whitespace c \<longleftrightarrow> c \<in> set [CHR 0x20, CHR 0x09, CHR 0x0A, CHR 0x0D]"

definition starts_json_value :: "string \<Rightarrow> bool" where
  \<open>starts_json_value s =
     (case dropWhile json_whitespace s of
        [] \<Rightarrow> False
      | c # cs \<Rightarrow> c \<in> set ''{["-0123456789tfn'')\<close>

text \<open>
  Responses of the model, with what \<open>json.loads\<close> makes of them: the object of the
  spec's scenario; an object without \<open>description\<close> and \<open>tips\<close>; an object with a
  sixth key; the text \<open>NaN\<close>; and a sentence that is no JSON. \<open>libs\<close> is one
  instance of the library behaviour, which answers for the concrete inputs: the
  parser restricted to these texts; some of the names inherited from \<open>Base\<close> and
  \<open>object\<close>; the messages of CPython and of the declarative constructor (for a key
  whose \<open>repr\<close> is the key in single quotes, the class in the module
  \<open>app.models\<close>); the \<open>__str__\<close> of current Starlette,
  \<open>f"{status_code}: {detail}"\<close>; for an \<open>int\<close> in a \<open>String\<close> column its
  decimal text, as SQLite returns it; and a number in a \<open>JSON\<close> column as it was
  written (the concrete inputs have none).
\<close>

definition raw_complete :: string where
  \<open>raw_complete = ''{"name":"A","description":"B","exercises":[],"tips":[],"progression":[]}''\<close>

definition raw_two_missing :: string where
  \<open>raw_two_missing = ''{"name":"A","exercises":[],"progression":[]}''\<close>

definition raw_sixth_key :: string where
  \<open>raw_sixth_key =
     ''{"name":"A","description":"B","exercises":[],"tips":[],"progression":[],"difficulty":"easy"}''\<close>

definition raw_nan :: string where
  "raw_nan = ''NaN''"

definition raw_prose :: string where
  "raw_prose = ''Claro, esta es tu rutina''"

definition loads_table :: "string \<Rightarrow> loads_error + pyfloat json" where
  "loads_table s =
     (if s = raw_complete then
        Inr (JObj [(''name'', JStr ''A''), (''description'', JStr ''B''), (''exercises'', JArr []),
                   (''tips'', JArr []), (''progression'', JArr [])])
      else if s = raw_two_missing then
        Inr (JObj [(''name'', JStr ''A''), (''exercises'', JArr []), (''progression'', JArr [])])
      else if s = raw_sixth_key then
        Inr (JObj [(''name'', JStr ''A''), (''description'', JStr ''B''), (''exercises'', JArr []),
                   (''tips'', JArr []), (''progression'', JArr []), (''difficulty'', JStr ''easy'')])
      else if s = raw_nan then Inr (JFloat NaN)
      else Inl (JSONDecodeError ''Expecting value: line 1 column 1 (char 0)''))"

fun type_error_text :: "type_error \<Rightarrow> string" where
  "type_error_text LoadsNotStr = ''the JSON object must be str, bytes or bytearray, not NoneType''"
| "type_error_text (NotIterable t) =
     ''argument of type '' @ [CHR 0x27] @ t @ [CHR 0x27] @ '' is not iterable''"
| "type_error_text (NotAMapping t) =
     ''app.models.WorkoutRoutine() argument after ** must be a mapping, not '' @ t"
| "type_error_text (MultipleValues k) =
     ''app.models.WorkoutRoutine() got multiple values for keyword argument '' @
     [CHR 0x27] @ k @ [CHR 0x27]"
| "type_error_text (InvalidKeyword k) =
     [CHR 0x27] @ k @ [CHR 0x27] @ '' is an invalid keyword argument for WorkoutRoutine''"

definition inherited_names :: "string list" where
  "inherited_names =
     [''metadata'', ''registry'', ''__table__'', ''__mapper__'', ''__init__'', ''__class__'',
      ''__dict__'', ''__doc__'', ''__module__'', ''__weakref__'', ''__new__'', ''__repr__'',
      ''__str__'', ''__eq__'', ''__ne__'', ''__lt__'', ''__le__'', ''__gt__'', ''__ge__'',
      ''__hash__'', ''__format__'', ''__getattribute__'', ''__setattr__'', ''__delattr__'',
      ''__dir__'', ''__sizeof__'', ''__reduce__'', ''__reduce_ex__'', ''__init_subclass__'',
      ''__subclasshook__'']"

fun int_as_text :: "pyfloat json \<Rightarrow> pyfloat json" where
  "int_as_text (JInt i) = JStr (str_int i)"
| "int_as_text v = v"

definition libs :: "pyfloat externals" where
  "libs =
     \<lparr> json_loads = loads_table,
       inherited_attr = (\<lambda>k. k \<in> set inherited_names),
       str_type_error = type_error_text,
       str_HTTPException = (\<lambda>c d. str_int c @ '': '' @ d),
       string_column = int_as_text,
       json_column_number = (\<lambda>v. v) \<rparr>"

definition strength_prompt :: WorkoutPrompt where
  "strength_prompt =
     \<lparr> goal = ''strength'', experience_level = ''beginner'',
       equipment_available = [''dumbbells''], time_available = 45,
       focus_areas = [''upper body''], injuries = None \<rparr>"

definition knee_prompt :: WorkoutPrompt where
  "knee_prompt =
     \<lparr> goal = ''mobility'', experience_level = ''advanced'',
       equipment_available = [''band'', ''mat''], time_available = 30,
       focus_areas = [''hips'', ''core''], injuries = Some [''knee'', ''wrist''] \<rparr>"

definition alice :: User where
  "alice = \<lparr> u_id = 1 \<rparr>"

definition bob :: User where
  "bob = \<lparr> u_id = 2 \<rparr>"

definition routine_of :: "int \<Rightarrow> int \<Rightarrow> int \<Rightarrow> pyfloat WorkoutRoutine" where
  "routine_of i uid t =
     \<lparr> r_id = i, r_user_id = Some uid, r_name = JStr ''A'', r_description = JStr ''B'',
       r_exercises = JArr [], r_tips = JArr [], r_progression = JArr [], r_created_at = t \<rparr>"

definition log_of :: "int \<Rightarrow> int \<Rightarrow> int \<Rightarrow> int \<Rightarrow> pyfloat WorkoutLog" where
  "log_of i uid rid t =
     \<lparr> l_id = i, l_user_id = uid, l_routine_id = rid, l_completed_exercises = [],
       l_notes = None, l_duration = Finite 30, l_created_at = t \<rparr>"

definition gym_db :: "pyfloat db" where
  "gym_db =
     \<lparr> workout_routines = [routine_of 1 1 10, routine_of 2 2 20, routine_of 3 1 30],
       workout_logs = [log_of 1 1 1 40, log_of 2 2 2 50, log_of 3 1 3 60] \<rparr>"

definition bob_request :: "pyfloat WorkoutLogCreate" where
  "bob_request =
     \<lparr> routine_id = 1, completed_exercises = [], log_notes = None, duration = Finite 30 \<rparr>"


section \<open>Properties of the prompt formatter\<close>

lemma sublist_left: "sublist x ys \<Longrightarrow> sublist x (ps @ ys)"
  unfolding sublist_def by (metis append.assoc)

lemma sublist_trans': "sublist x y \<Longrightarrow> sublist y z \<Longrightarrow> sublist x z"
  unfolding sublist_def by (metis append.assoc)

lemma sublist_concat: "x \<in> set pieces \<Longrightarrow> sublist x (concat pieces)"
proof (induction pieces)
  case Nil
  then show ?case by simp
next
  case (Cons p ps)
  then show ?case by (auto intro: sublist_left)
qed

lemma sublist_join: "x \<in> set xs \<Longrightarrow> sublist x (join sep xs)"
proof (induction sep xs rule: join.induct)
  case (1 sep)
  then show ?case by simp
next
  case (2 sep y)
  then show ?case by simp
next
  case (3 sep y z zs)
  show ?case
  proof (cases "x = y")
    case True
    then show ?thesis by simp
  next
    case False
    with 3 have "sublist x (join sep (z # zs))" by simp
    then show ?thesis by (simp add: sublist_left)
  qed
qed

lemma injuries_text_absent:
  "v = None \<or> v = Some [] \<Longrightarrow> injuries_text v = ''Ninguna''"
  by (auto simp: injuries_text_def)

lemma injuries_text_present:
  "x \<in> set xs \<Longrightarrow> sublist x (injuries_text (Some xs))"
  by (cases xs) (auto simp: injuries_text_def intro: sublist_join)

lemma format_workout_prompt_pieces:
  "format_workout_prompt prompt =
     concat
      [''Genera una rutina de entrenamiento detallada con las siguientes especificaciones:    '', NL,
       ''    - Objetivo: '', goal prompt, NL,
       ''    - Nivel de experiencia: '', experience_level prompt, NL,
       ''    - Equipo disponible: '', join '', '' (equipment_available prompt), NL,
       ''    - Tiempo disponible: '', str_int (time_available prompt), '' minutos'', NL,
       ''    - '' @ [CHR 0xC3, CHR 0x81] @ ''reas de enfoque: '', join '', '' (focus_areas prompt), NL,
       ''    - Lesiones/Limitaciones: '', injuries_text (injuries prompt), NL,
       json_structure]"
  by (simp add: format_workout_prompt_def)



lemma injuries_line_absent:
  assumes "v = None \<or> v = Some []"
  shows "''    - Lesiones/Limitaciones: '' @ injuries_text v @ rest =
         ''    - Lesiones/Limitaciones: Ninguna'' @ rest"
  using injuries_text_absent [OF assms] by simp

text \<open>
  C6. When \<open>injuries\<close> is \<open>None\<close> or the empty list, the injuries line of the
  formatted prompt is the label followed by the placeholder \<open>Ninguna\<close> and the end
  of the line, and nothing but the fixed JSON example follows it: the position that
  would hold the joined list holds the placeholder instead.
\<close>

theorem placeholder_for_no_injuries:
  assumes "injuries prompt = None \<or> injuries prompt = Some []"
  shows "\<exists>pre. format_workout_prompt prompt =
           pre @ ''    - Lesiones/Limitaciones: Ninguna'' @ NL @ json_structure"
proof -
  define before where "before =
       ''Genera una rutina de entrenamiento detallada con las siguientes especificaciones:    '' @ NL @
       ''    - Objetivo: '' @ goal prompt @ NL @
       ''    - Nivel de experiencia: '' @ experience_level prompt @ NL @
       ''    - Equipo disponible: '' @ join '', '' (equipment_available prompt) @ NL @
       ''    - Tiempo disponible: '' @ str_int (time_available prompt) @ '' minutos'' @ NL @
       ''    - '' @ [CHR 0xC3, CHR 0x81] @ ''reas de enfoque: '' @ join '', '' (focus_areas prompt) @ NL"
  have "format_workout_prompt prompt =
          before @ ''    - Lesiones/Limitaciones: '' @ injuries_text (injuries prompt) @ NL @ json_structure"
    unfolding format_workout_prompt_def before_def by (simp only: append_assoc)
  also have "\<dots> = before @ ''    - Lesiones/Limitaciones: Ninguna'' @ NL @ json_structure"
    by (simp only: injuries_line_absent [OF assms])
  finally show ?thesis by (rule exI [where x = before])
qed

theorem placeholder_for_no_injuries_witness:
  "injuries strength_prompt = None \<and>
   sublist ''- Lesiones/Limitaciones: Ninguna'' (format_workout_prompt strength_prompt)"
proof -
  have h: "injuries strength_prompt = None \<or> injuries strength_prompt = Some []"
    by (simp add: strength_prompt_def)
  from placeholder_for_no_injuries [OF h] obtain pre where
    "format_workout_prompt strength_prompt =
       pre @ ''    - Lesiones/Limitaciones: Ninguna'' @ NL @ json_structure" ..
  then have "format_workout_prompt strength_prompt =
       (pre @ ''    '') @ ''- Lesiones/Limitaciones: Ninguna'' @ (NL @ json_structure)"
    by simp
  then have "sublist ''- Lesiones/Limitaciones: Ninguna'' (format_workout_prompt strength_prompt)"
    unfolding sublist_def by (intro exI)
  moreover have "injuries strength_prompt = None"
    by (simp add: strength_prompt_def)
  ultimately show ?thesis by blast
qed

text \<open>
  C7. The formatter is a function of the six fields of the prompt and of nothing
  else, so equal inputs give the same bytes; and the output contains, as a contiguous
  substring, the goal, the experience level, every equipment item, the decimal text of
  the available time, every focus area and, when injuries are given, every injury.
\<close>

theorem prompt_contains_every_field:
  "sublist (goal prompt) (format_workout_prompt prompt) \<and>
   sublist (experience_level prompt) (format_workout_prompt prompt) \<and>
   (\<forall>e \<in> set (equipment_available prompt). sublist e (format_workout_prompt prompt)) \<and>
   sublist (str_int (time_available prompt)) (format_workout_prompt prompt) \<and>
   (\<forall>a \<in> set (focus_areas prompt). sublist a (format_workout_prompt prompt)) \<and>
   (\<forall>xs. injuries prompt = Some xs \<longrightarrow>
      (\<forall>i \<in> set xs. sublist i (format_workout_prompt prompt))) \<and>
   (\<forall>other. goal other = goal prompt \<and> experience_level other = experience_level prompt \<and>
      equipment_available other = equipment_available prompt \<and>
      time_available other = time_available prompt \<and>
      focus_areas other = focus_areas prompt \<and> injuries other = injuries prompt \<longrightarrow>
      format_workout_prompt other = format_workout_prompt prompt)"
proof -
  let ?out = "format_workout_prompt prompt"
  have piece: "sublist x ?out"
    if "x \<in> {goal prompt, experience_level prompt, join '', '' (equipment_available prompt),
              str_int (time_available prompt), join '', '' (focus_areas prompt),
              injuries_text (injuries prompt)}" for x
    unfolding format_workout_prompt_pieces using that by (intro sublist_concat) auto
  have "sublist e ?out" if "e \<in> set (equipment_available prompt)" for e
    using sublist_join [OF that] piece by (blast intro: sublist_trans')
  moreover have "sublist a ?out" if "a \<in> set (focus_areas prompt)" for a
    using sublist_join [OF that] piece by (blast intro: sublist_trans')
  moreover have "sublist i ?out" if "injuries prompt = Some xs" "i \<in> set xs" for xs i
    using injuries_text_present [OF that(2)] that(1) piece [of "injuries_text (injuries prompt)"]
    by (auto intro: sublist_trans')
  moreover have "format_workout_prompt other = ?out"
    if "goal other = goal prompt \<and> experience_level other = experience_level prompt \<and>
      equipment_available other = equipment_available prompt \<and>
      time_available other = time_available prompt \<and>
      focus_areas other = focus_areas prompt \<and> injuries other = injuries prompt" for other
    using that by (simp only: format_workout_prompt_def)
  ultimately show ?thesis using piece by blast
qed

theorem prompt_contains_every_field_witness:
  "sublist ''mobility'' (format_workout_prompt knee_prompt) \<and>
   sublist ''advanced'' (format_workout_prompt knee_prompt) \<and>
   sublist ''band'' (format_workout_prompt knee_prompt) \<and>
   sublist ''mat'' (format_workout_prompt knee_prompt) \<and>
   sublist ''30'' (format_workout_prompt knee_prompt) \<and>
   sublist ''hips'' (format_workout_prompt knee_prompt) \<and>
   sublist ''core'' (format_workout_prompt knee_prompt) \<and>
   sublist ''knee'' (format_workout_prompt knee_prompt) \<and>
   sublist ''wrist'' (format_workout_prompt knee_prompt)"
proof -
  have fields:
    "goal knee_prompt = ''mobility''" "experience_level knee_prompt = ''advanced''"
    "equipment_available knee_prompt = [''band'', ''mat'']"
    "str_int (time_available knee_prompt) = ''30''"
    "focus_areas knee_prompt = [''hips'', ''core'']"
    "injuries knee_prompt = Some [''knee'', ''wrist'']"
    by (simp_all add: knee_prompt_def str_int_def str_nat.simps)
  show ?thesis
    using prompt_contains_every_field [of knee_prompt]
    unfolding fields by simp
qed

section \<open>Properties of \<open>generate_workout\<close>\<close>

lemma check_required_present:
  "\<forall>g \<in> set fs. g \<in> fst ` set kvs \<Longrightarrow> check_required fs (JObj kvs) = Inr ()"
  by (induction fs) auto

lemma check_required_first_missing:
  assumes "\<forall>g \<in> set pre. g \<in> fst ` set kvs" and "f \<notin> fst ` set kvs"
  shows "check_required (pre @ f # post) (JObj kvs) =
           Inl (ValueError (''Missing required field: '' @ f))"
  using assms by (induction pre) auto

lemma check_required_error:
  "check_required fs v = Inl e \<Longrightarrow> (\<exists>m. e = ValueError m) \<or> (\<exists>t. e = TypeError t)"
proof (induction fs)
  case Nil
  then show ?case by simp
next
  case (Cons f fs)
  then show ?case
    by (cases v) (auto split: if_splits)
qed

lemma generate_workout_content:
  assumes "chat (format_workout_prompt prompt) = Inr content"
  shows "generate_workout ext chat storage prompt current_user db =
           (case parse_validate_store ext storage current_user db content of
              (Inl e, db') \<Rightarrow>
                (Inl (HTTPException 500 (''Error generating workout: '' @ str_exn ext e)), db')
            | (Inr routine, db') \<Rightarrow> (Inr routine, db'))"
  using assms by (simp add: generate_workout_def)

text \<open>
  C1. When the response parses as a JSON object that lacks at least one required
  field, the field loop raises \<open>ValueError("Missing required field: f")\<close> where
  \<open>f\<close> is the first absent field in the order of \<open>required_fields\<close> (every field
  before it is present), however many are absent; the handler reports it as status
  500 with that message after the prefix of the endpoint, and stores nothing.
\<close>

theorem first_missing_field_is_named:
  assumes "chat (format_workout_prompt prompt) = Inr (Some raw_text)"
    and "json_loads ext raw_text = Inr (JObj kvs)"
    and "\<exists>f \<in> set required_fields. f \<notin> fst ` set kvs"
  shows "\<exists>pre f post.
           required_fields = pre @ f # post \<and>
           (\<forall>g \<in> set pre. g \<in> fst ` set kvs) \<and> f \<notin> fst ` set kvs \<and>
           check_required required_fields (JObj kvs) =
             Inl (ValueError (''Missing required field: '' @ f)) \<and>
           generate_workout ext chat storage prompt current_user db =
             (Inl (HTTPException 500
                    (''Error generating workout: '' @ ''Missing required field: '' @ f)), db)"
proof -
  from assms(3) obtain pre f post where
    split: "required_fields = pre @ f # post" and
    missing: "f \<notin> fst ` set kvs" and
    earlier: "\<forall>g \<in> set pre. \<not> g \<notin> fst ` set kvs"
    using split_list_first_prop [of required_fields "\<lambda>f. f \<notin> fst ` set kvs"] by blast
  from earlier have present: "\<forall>g \<in> set pre. g \<in> fst ` set kvs" by simp
  have check: "check_required required_fields (JObj kvs) =
      Inl (ValueError (''Missing required field: '' @ f))"
    unfolding split using present missing by (rule check_required_first_missing)
  have "generate_workout ext chat storage prompt current_user db =
      (Inl (HTTPException 500 (''Error generating workout: '' @ ''Missing required field: '' @ f)), db)"
    unfolding generate_workout_content [of chat prompt, OF assms(1)]
    by (simp add: parse_validate_store_def assms(2) check)
  with split present missing check show ?thesis by blast
qed

theorem first_missing_field_is_named_witness:
  "json_loads libs raw_two_missing =
     Inr (JObj [(''name'', JStr ''A''), (''exercises'', JArr []), (''progression'', JArr [])]) \<and>
   generate_workout libs (\<lambda>p. Inr (Some raw_two_missing)) (Stored 4 70) strength_prompt alice gym_db =
     (Inl (HTTPException 500 ''Error generating workout: Missing required field: description''),
      gym_db)"
proof -
  let ?kvs = "[(''name'', JStr ''A''), (''exercises'', JArr []), (''progression'', JArr [])]
                :: (string \<times> pyfloat json) list"
  have parsed: "json_loads libs raw_two_missing = Inr (JObj ?kvs)"
    by (simp add: libs_def loads_table_def raw_two_missing_def raw_complete_def)
  have absent: "\<exists>f \<in> set required_fields. f \<notin> fst ` set ?kvs"
    by (simp add: required_fields_def)
  from first_missing_field_is_named
         [where chat = "\<lambda>p. Inr (Some raw_two_missing)" and prompt = strength_prompt
            and storage = "Stored 4 70" and current_user = alice and db = gym_db,
          OF refl parsed absent]
  obtain pre f post where
    split: "required_fields = pre @ f # post" and
    present: "\<forall>g \<in> set pre. g \<in> fst ` set ?kvs" and
    missing: "f \<notin> fst ` set ?kvs" and
    result: "generate_workout libs (\<lambda>p. Inr (Some raw_two_missing)) (Stored 4 70) strength_prompt
               alice gym_db =
             (Inl (HTTPException 500
                 (''Error generating workout: '' @ ''Missing required field: '' @ f)), gym_db)"
    by blast
  have "f = ''description''"
  proof (cases pre)
    case Nil
    with split missing show ?thesis by (simp add: required_fields_def)
  next
    case (Cons a pre')
    with split have a: "a = ''name''" and rest: "''description'' # [''exercises'', ''tips'', ''progression''] = pre' @ f # post"
      by (simp_all add: required_fields_def)
    show ?thesis
    proof (cases pre')
      case Nil
      with rest show ?thesis by simp
    next
      case (Cons b pre'')
      with rest have "b = ''description''" by simp
      with present \<open>pre = a # pre'\<close> Cons show ?thesis by simp
    qed
  qed
  with result parsed show ?thesis by simp
qed


lemma new_WorkoutRoutine_error:
  "new_WorkoutRoutine ext v = Inl e \<Longrightarrow> \<exists>t. e = TypeError t"
  by (cases v) (auto simp: new_WorkoutRoutine_def split: if_splits option.splits)

lemma store_routine_cases:
  "(\<exists>e. store_routine ext storage current_user db v = (Inl e, db) \<and>
        ((\<exists>t. e = TypeError t) \<or> (\<exists>m. e = StorageError m))) \<or>
   (\<exists>routine. store_routine ext storage current_user db v =
        (Inr routine, db\<lparr>workout_routines := workout_routines db @ [routine]\<rparr>))"
  by (cases "new_WorkoutRoutine ext v"; cases storage)
    (auto simp: store_routine_def Let_def dest: new_WorkoutRoutine_error)

lemma parse_validate_store_parsed:
  assumes "json_loads ext raw_text = Inr v"
  shows "(\<exists>e. parse_validate_store ext storage current_user db (Some raw_text) = (Inl e, db) \<and>
            ((\<exists>m. e = ValueError m) \<or> (\<exists>t. e = TypeError t) \<or> (\<exists>m. e = StorageError m)) \<and>
            (check_required required_fields v = Inr () \<longrightarrow> (\<exists>t. e = TypeError t) \<or> (\<exists>m. e = StorageError m))) \<or>
         (\<exists>routine. check_required required_fields v = Inr () \<and>
            parse_validate_store ext storage current_user db (Some raw_text) =
              (Inr routine, db\<lparr>workout_routines := workout_routines db @ [routine]\<rparr>))"
proof (cases "check_required required_fields v")
  case (Inl e)
  with check_required_error [OF Inl] assms show ?thesis
    by (auto simp: parse_validate_store_def)
next
  case (Inr u)
  with assms store_routine_cases [of ext storage current_user db v] show ?thesis
    by (auto simp: parse_validate_store_def)
qed

lemma parse_validate_store_decode_error:
  assumes "json_loads ext raw_text = Inl (JSONDecodeError m)"
  shows "parse_validate_store ext storage current_user db (Some raw_text) =
           (Inl (HTTPException 500 ''Error parsing AI response''), db)"
  using assms by (simp add: parse_validate_store_def)

lemma parse_validate_store_too_deep:
  assumes "json_loads ext raw_text = Inl (LoadsRecursionError m)"
  shows "parse_validate_store ext storage current_user db (Some raw_text) =
           (Inl (RecursionError m), db)"
  using assms by (simp add: parse_validate_store_def)

lemma parse_validate_store_unparsed:
  assumes "json_loads ext raw_text = Inl failure"
  shows "\<exists>e. parse_validate_store ext storage current_user db (Some raw_text) = (Inl e, db)"
  using assms by (cases failure) (simp_all add: parse_validate_store_def)

text \<open>
  C2, amended. When \<open>json.loads\<close> raises \<open>JSONDecodeError\<close> on the response, the
  inner handler raises the parse error of the endpoint,
  \<open>HTTPException(500, "Error parsing AI response")\<close>, and nothing else; the handler
  reports it to the caller as status 500, its text after the prefix of the endpoint,
  and stores nothing. No other response produces that error: not one that
  \<open>json.loads\<close> turns into a value, and not one on which it raises
  \<open>RecursionError\<close>.
\<close>

theorem decode_error_is_reported:
  assumes "chat (format_workout_prompt prompt) = Inr (Some raw_text)"
    and "json_loads ext raw_text = Inl (JSONDecodeError m)"
  shows "parse_validate_store ext storage current_user db (Some raw_text) =
           (Inl (HTTPException 500 ''Error parsing AI response''), db) \<and>
         generate_workout ext chat storage prompt current_user db =
           (Inl (HTTPException 500
                  (''Error generating workout: '' @
                   str_HTTPException ext 500 ''Error parsing AI response'')), db) \<and>
         (\<forall>other. (\<forall>m'. json_loads ext other \<noteq> Inl (JSONDecodeError m')) \<longrightarrow>
            fst (parse_validate_store ext storage current_user db (Some other)) \<noteq>
              Inl (HTTPException 500 ''Error parsing AI response''))"
proof -
  note inner = parse_validate_store_decode_error [OF assms(2), of storage current_user db]
  have outer: "generate_workout ext chat storage prompt current_user db =
      (Inl (HTTPException 500
             (''Error generating workout: '' @
              str_HTTPException ext 500 ''Error parsing AI response'')), db)"
    unfolding generate_workout_content [of chat prompt, OF assms(1)] inner by simp
  have "fst (parse_validate_store ext storage current_user db (Some other)) \<noteq>
          Inl (HTTPException 500 ''Error parsing AI response'')"
    if other: "\<forall>m'. json_loads ext other \<noteq> Inl (JSONDecodeError m')" for other
  proof (cases "json_loads ext other")
    case (Inl failure)
    with other obtain m' where "json_loads ext other = Inl (LoadsRecursionError m')"
      by (cases failure) auto
    from parse_validate_store_too_deep [OF this, of storage current_user db]
    show ?thesis by simp
  next
    case (Inr v)
    from parse_validate_store_parsed [OF Inr, of storage current_user db]
    show ?thesis by auto
  qed
  with inner outer show ?thesis by blast
qed

theorem decode_error_is_reported_witness:
  "json_loads libs raw_prose = Inl (JSONDecodeError ''Expecting value: line 1 column 1 (char 0)'') \<and>
   generate_workout libs (\<lambda>p. Inr (Some raw_prose)) (Stored 4 70) strength_prompt alice gym_db =
     (Inl (HTTPException 500 ''Error generating workout: 500: Error parsing AI response''),
      gym_db)"
proof -
  have unparsed: "json_loads libs raw_prose =
      Inl (JSONDecodeError ''Expecting value: line 1 column 1 (char 0)'')"
    by (simp add: libs_def loads_table_def raw_prose_def raw_complete_def raw_two_missing_def
          raw_sixth_key_def raw_nan_def)
  have shown: "str_HTTPException libs 500 ''Error parsing AI response'' =
      ''500: Error parsing AI response''"
    by (simp add: libs_def str_int_def str_nat.simps)
  from decode_error_is_reported
         [where chat = "\<lambda>p. Inr (Some raw_prose)" and prompt = strength_prompt
            and storage = "Stored 4 70" and current_user = alice and db = gym_db,
          OF refl unparsed]
  show ?thesis unfolding shown using unparsed by simp
qed

text \<open>
  C2 as stated fails: the text \<open>NaN\<close> is not valid JSON, yet \<open>json.loads\<close> returns
  a float for it; the field check then raises a \<open>TypeError\<close>, and it is that error,
  not the parse error, that the handler reports.
\<close>

theorem nan_is_not_reported_as_parse_error:
  "\<not> starts_json_value raw_nan \<and>
   json_loads libs raw_nan = Inr (JFloat NaN) \<and>
   parse_validate_store libs (Stored 4 70) alice gym_db (Some raw_nan) =
     (Inl (TypeError (NotIterable ''float'')), gym_db) \<and>
   generate_workout libs (\<lambda>p. Inr (Some raw_nan)) (Stored 4 70) strength_prompt alice gym_db =
     (Inl (HTTPException 500
        ''Error generating workout: argument of type 'float' is not iterable''), gym_db)"
proof -
  have not_json: "\<not> starts_json_value raw_nan"
    by (simp add: starts_json_value_def raw_nan_def json_whitespace_def)
  have loaded: "json_loads libs raw_nan = Inr (JFloat NaN)"
    by (simp add: libs_def loads_table_def raw_nan_def raw_complete_def raw_two_missing_def
          raw_sixth_key_def)
  have inner: "parse_validate_store libs (Stored 4 70) alice gym_db (Some raw_nan) =
      (Inl (TypeError (NotIterable ''float'')), gym_db)"
    by (simp add: parse_validate_store_def loaded required_fields_def)
  have "generate_workout libs (\<lambda>p. Inr (Some raw_nan)) (Stored 4 70) strength_prompt alice gym_db =
      (Inl (HTTPException 500
         ''Error generating workout: argument of type 'float' is not iterable''), gym_db)"
    by (simp add: generate_workout_def inner) (simp add: libs_def)
  with not_json loaded inner show ?thesis by simp
qed


lemma generate_workout_error_keeps_db:
  "isl (fst (generate_workout ext chat storage prompt current_user db)) \<Longrightarrow>
   snd (generate_workout ext chat storage prompt current_user db) = db"
proof (cases "chat (format_workout_prompt prompt)")
  case (Inl m)
  then show ?thesis by (simp add: generate_workout_def)
next
  case (Inr content)
  assume failed: "isl (fst (generate_workout ext chat storage prompt current_user db))"
  show ?thesis
  proof (cases content)
    case None
    with Inr show ?thesis by (simp add: generate_workout_def parse_validate_store_def)
  next
    case (Some raw_text)
    show ?thesis
    proof (cases "json_loads ext raw_text")
      case (Inl m)
      from parse_validate_store_unparsed [OF Inl, of storage current_user db] Inr Some
      show ?thesis by (auto simp: generate_workout_def)
    next
      case inner: (Inr v)
      from parse_validate_store_parsed [OF inner, of storage current_user db] failed Inr Some
      show ?thesis by (auto simp: generate_workout_def)
    qed
  qed
qed

text \<open>
  C3. A run in which parsing fails or the required-field check raises ends in an
  error with the tables as they were; every run that ends in an error leaves the
  tables as they were; and a run that changes the tables has parsed the response,
  passed the required-field check, and appended exactly the one routine it returns.
\<close>

theorem routine_written_only_after_validation:
  "(\<forall>raw_text.
      chat (format_workout_prompt prompt) = Inr (Some raw_text) \<and>
      (isl (json_loads ext raw_text) \<or>
       (\<exists>workout_data. json_loads ext raw_text = Inr workout_data \<and>
          isl (check_required required_fields workout_data))) \<longrightarrow>
      isl (fst (generate_workout ext chat storage prompt current_user db)) \<and>
      snd (generate_workout ext chat storage prompt current_user db) = db) \<and>
   (isl (fst (generate_workout ext chat storage prompt current_user db)) \<longrightarrow>
      snd (generate_workout ext chat storage prompt current_user db) = db) \<and>
   (snd (generate_workout ext chat storage prompt current_user db) \<noteq> db \<longrightarrow>
      (\<exists>raw_text workout_data routine.
         chat (format_workout_prompt prompt) = Inr (Some raw_text) \<and>
         json_loads ext raw_text = Inr workout_data \<and>
         check_required required_fields workout_data = Inr () \<and>
         generate_workout ext chat storage prompt current_user db =
           (Inr routine, db\<lparr>workout_routines := workout_routines db @ [routine]\<rparr>)))"
proof (intro conjI allI impI)
  fix raw_text
  assume a: "chat (format_workout_prompt prompt) = Inr (Some raw_text) \<and>
      (isl (json_loads ext raw_text) \<or>
       (\<exists>workout_data. json_loads ext raw_text = Inr workout_data \<and>
          isl (check_required required_fields workout_data)))"
  then have content: "chat (format_workout_prompt prompt) = Inr (Some raw_text)" by simp
  from a consider
    (unparsed) m where "json_loads ext raw_text = Inl m"
  | (invalid) v e where "json_loads ext raw_text = Inr v" "check_required required_fields v = Inl e"
    by (auto simp: isl_def)
  then have failed: "isl (fst (generate_workout ext chat storage prompt current_user db))"
  proof cases
    case unparsed
    from parse_validate_store_unparsed [OF this, of storage current_user db]
    show ?thesis
      unfolding generate_workout_content [of chat prompt, OF content]
      by auto
  next
    case invalid
    then show ?thesis
      unfolding generate_workout_content [of chat prompt, OF content]
      by (simp add: parse_validate_store_def)
  qed
  then show "isl (fst (generate_workout ext chat storage prompt current_user db))" .
  from failed show "snd (generate_workout ext chat storage prompt current_user db) = db"
    by (rule generate_workout_error_keeps_db)
next
  assume "isl (fst (generate_workout ext chat storage prompt current_user db))"
  then show "snd (generate_workout ext chat storage prompt current_user db) = db"
    by (rule generate_workout_error_keeps_db)
next
  assume changed: "snd (generate_workout ext chat storage prompt current_user db) \<noteq> db"
  show "\<exists>raw_text workout_data routine.
         chat (format_workout_prompt prompt) = Inr (Some raw_text) \<and>
         json_loads ext raw_text = Inr workout_data \<and>
         check_required required_fields workout_data = Inr () \<and>
         generate_workout ext chat storage prompt current_user db =
           (Inr routine, db\<lparr>workout_routines := workout_routines db @ [routine]\<rparr>)"
  proof (cases "chat (format_workout_prompt prompt)")
    case (Inl m)
    with changed show ?thesis by (simp add: generate_workout_def)
  next
    case (Inr content)
    show ?thesis
    proof (cases content)
      case None
      with Inr changed show ?thesis
        by (simp add: generate_workout_def parse_validate_store_def)
    next
      case (Some raw_text)
      show ?thesis
      proof (cases "json_loads ext raw_text")
        case (Inl m)
        from parse_validate_store_unparsed [OF Inl, of storage current_user db] Inr Some changed
        show ?thesis by (auto simp: generate_workout_def)
      next
        case inner: (Inr v)
        from parse_validate_store_parsed [OF inner, of storage current_user db] changed Inr Some
        obtain routine where "check_required required_fields v = Inr ()"
          "parse_validate_store ext storage current_user db (Some raw_text) =
             (Inr routine, db\<lparr>workout_routines := workout_routines db @ [routine]\<rparr>)"
          by (auto simp: generate_workout_def)
        with Inr Some inner show ?thesis
          by (auto simp: generate_workout_def)
      qed
    qed
  qed
qed

theorem routine_written_only_after_validation_witness:
  "isl (json_loads libs raw_prose) \<and>
   isl (fst (generate_workout libs (\<lambda>p. Inr (Some raw_prose)) (Stored 4 70) strength_prompt
               alice gym_db)) \<and>
   snd (generate_workout libs (\<lambda>p. Inr (Some raw_prose)) (Stored 4 70) strength_prompt
          alice gym_db) = gym_db"
proof -
  have unparsed: "isl (json_loads libs raw_prose)"
    by (simp add: libs_def loads_table_def raw_prose_def raw_complete_def raw_two_missing_def
          raw_sixth_key_def raw_nan_def)
  from routine_written_only_after_validation
         [where chat = "\<lambda>p. Inr (Some raw_prose)" and prompt = strength_prompt
            and ext = libs and storage = "Stored 4 70" and current_user = alice and db = gym_db]
  have "isl (json_loads libs raw_prose) \<longrightarrow>
      isl (fst (generate_workout libs (\<lambda>p. Inr (Some raw_prose)) (Stored 4 70) strength_prompt
               alice gym_db)) \<and>
      snd (generate_workout libs (\<lambda>p. Inr (Some raw_prose)) (Stored 4 70) strength_prompt
          alice gym_db) = gym_db"
    by blast
  with unparsed show ?thesis by blast
qed




lemma new_WorkoutRoutine_rejects:
  assumes "\<exists>k \<in> fst ` set kvs. \<not> hasattr_WorkoutRoutine ext k"
  shows "\<exists>t. (t = MultipleValues ''user_id'' \<or>
              (\<exists>k \<in> fst ` set kvs. t = InvalidKeyword k \<and> \<not> hasattr_WorkoutRoutine ext k)) \<and>
             new_WorkoutRoutine ext (JObj kvs) = Inl (TypeError t)"
proof (cases "''user_id'' \<in> set (map fst kvs)")
  case True
  then show ?thesis by (simp add: new_WorkoutRoutine_def)
next
  case False
  from assms obtain k where
    found: "find (\<lambda>k. \<not> hasattr_WorkoutRoutine ext k) (map fst kvs) = Some k"
    by (cases "find (\<lambda>k. \<not> hasattr_WorkoutRoutine ext k) (map fst kvs)")
       (auto simp: find_None_iff)
  then have "k \<in> fst ` set kvs" "\<not> hasattr_WorkoutRoutine ext k"
    by (auto simp: find_Some_iff)
  with False found show ?thesis by (auto simp: new_WorkoutRoutine_def)
qed


text \<open>
  C10. When the response parses as a JSON object with the five required fields and
  at least one key that is not an attribute of \<open>WorkoutRoutine\<close>, the check passes,
  the constructor call raises a \<open>TypeError\<close> (for the first such key, or for a
  second \<open>user_id\<close>), the handler reports status 500 with its message, and nothing
  is stored, whatever the storage layer would have done.
\<close>

theorem unknown_key_fails_after_validation:
  assumes "chat (format_workout_prompt prompt) = Inr (Some raw_text)"
    and "json_loads ext raw_text = Inr (JObj kvs)"
    and "set required_fields \<subseteq> fst ` set kvs"
    and "\<exists>k \<in> fst ` set kvs. \<not> hasattr_WorkoutRoutine ext k"
  shows "check_required required_fields (JObj kvs) = Inr () \<and>
         (\<exists>t. (t = MultipleValues ''user_id'' \<or>
                (\<exists>k \<in> fst ` set kvs. t = InvalidKeyword k \<and> \<not> hasattr_WorkoutRoutine ext k)) \<and>
               generate_workout ext chat storage prompt current_user db =
                 (Inl (HTTPException 500
                        (''Error generating workout: '' @ str_type_error ext t)), db))"
proof -
  have valid: "check_required required_fields (JObj kvs) = Inr ()"
    using assms(3) by (intro check_required_present) auto
  from new_WorkoutRoutine_rejects [OF assms(4)] obtain t where
    kind: "t = MultipleValues ''user_id'' \<or>
           (\<exists>k \<in> fst ` set kvs. t = InvalidKeyword k \<and> \<not> hasattr_WorkoutRoutine ext k)" and
    raised: "new_WorkoutRoutine ext (JObj kvs) = Inl (TypeError t)"
    by blast
  have "generate_workout ext chat storage prompt current_user db =
      (Inl (HTTPException 500 (''Error generating workout: '' @ str_type_error ext t)), db)"
    unfolding generate_workout_content [of chat prompt, OF assms(1)]
    by (simp add: parse_validate_store_def assms(2) valid store_routine_def raised)
  with valid kind show ?thesis by blast
qed



lemma loads_sixth_key:
  "json_loads libs raw_sixth_key =
     Inr (JObj [(''name'', JStr ''A''), (''description'', JStr ''B''), (''exercises'', JArr []),
                (''tips'', JArr []), (''progression'', JArr []), (''difficulty'', JStr ''easy'')])"
  by (simp add: libs_def loads_table_def raw_sixth_key_def raw_complete_def raw_two_missing_def)



theorem unknown_key_fails_after_validation_witness:
  "json_loads libs raw_sixth_key =
     Inr (JObj [(''name'', JStr ''A''), (''description'', JStr ''B''), (''exercises'', JArr []),
                (''tips'', JArr []), (''progression'', JArr []), (''difficulty'', JStr ''easy'')]) \<and>
   \<not> hasattr_WorkoutRoutine libs ''difficulty'' \<and>
   isl (fst (generate_workout libs (\<lambda>p. Inr (Some raw_sixth_key)) (StorageRaises ''unused'')
               knee_prompt bob gym_db)) \<and>
   snd (generate_workout libs (\<lambda>p. Inr (Some raw_sixth_key)) (StorageRaises ''unused'')
          knee_prompt bob gym_db) = gym_db"
proof -
  let ?kvs = "[(''name'', JStr ''A''), (''description'', JStr ''B''), (''exercises'', JArr []),
               (''tips'', JArr []), (''progression'', JArr []), (''difficulty'', JStr ''easy'')]
                :: (string \<times> pyfloat json) list"
  have fields: "set required_fields \<subseteq> fst ` set ?kvs"
    by (simp add: required_fields_def)
  have unknown: "\<not> hasattr_WorkoutRoutine libs ''difficulty''"
    by (simp add: hasattr_WorkoutRoutine_def WorkoutRoutine_attrs_def libs_def inherited_names_def)
  then have extra: "\<exists>k \<in> fst ` set ?kvs. \<not> hasattr_WorkoutRoutine libs k"
    by simp
  from unknown_key_fails_after_validation
         [where chat = "\<lambda>p. Inr (Some raw_sixth_key)" and prompt = knee_prompt
            and storage = "StorageRaises ''unused''" and current_user = bob and db = gym_db,
          OF refl loads_sixth_key fields extra]
  obtain t where "generate_workout libs (\<lambda>p. Inr (Some raw_sixth_key)) (StorageRaises ''unused'')
               knee_prompt bob gym_db =
      (Inl (HTTPException 500 (''Error generating workout: '' @ str_type_error libs t)), gym_db)"
    by blast
  with unknown loads_sixth_key show ?thesis by simp
qed

section \<open>Properties of \<open>log_workout\<close>, the list handlers and the client\<close>

text \<open>
  C4. When no routine has both the requested id and the caller as owner (the id may
  well belong to a routine of another user), \<open>log_workout\<close> raises the 404 and the
  tables are as they were, whatever the storage layer would have answered: the
  lookup decides before any write.
\<close>

theorem log_needs_routine_of_caller:
  assumes "\<forall>r \<in> set (workout_routines db).
             \<not> (r_id r = routine_id log_input \<and> r_user_id r = Some (u_id current_user))"
  shows "log_workout storage log_input current_user db =
           (Inl (HTTPException 404 ''Workout routine not found''), db)"
proof -
  have "find (\<lambda>r. r_id r = routine_id log_input \<and> r_user_id r = Some (u_id current_user))
          (workout_routines db) = None"
    using assms by (simp add: find_None_iff)
  then show ?thesis by (simp add: log_workout_def)
qed

theorem log_needs_routine_of_caller_witness:
  "routine_of 1 1 10 \<in> set (workout_routines gym_db) \<and>
   r_id (routine_of 1 1 10) = routine_id bob_request \<and>
   r_user_id (routine_of 1 1 10) = Some (u_id alice) \<and>
   log_workout (Stored 4 70) bob_request bob gym_db =
     (Inl (HTTPException 404 ''Workout routine not found''), gym_db)"
proof -
  have none: "\<forall>r \<in> set (workout_routines gym_db).
      \<not> (r_id r = routine_id bob_request \<and> r_user_id r = Some (u_id bob))"
    by (simp add: gym_db_def routine_of_def bob_request_def bob_def)
  have "routine_of 1 1 10 \<in> set (workout_routines gym_db)"
    by (simp add: gym_db_def)
  moreover have "r_id (routine_of 1 1 10) = routine_id bob_request"
    by (simp add: routine_of_def bob_request_def)
  moreover have "r_user_id (routine_of 1 1 10) = Some (u_id alice)"
    by (simp add: routine_of_def alice_def)
  ultimately show ?thesis
    using log_needs_routine_of_caller [OF none, of "Stored 4 70"] by simp
qed

lemma sorted_desc_sort_key:
  "sorted_wrt (\<lambda>a b. f b \<le> f a) (sort_key (\<lambda>x. - f x) xs)" for f :: "'a \<Rightarrow> int"
proof -
  have "sorted (map (\<lambda>x. - f x) (sort_key (\<lambda>x. - f x) xs))"
    by (rule sorted_sort_key)
  then show ?thesis by (simp add: sorted_map)
qed

text \<open>
  C8. The routines list holds exactly the caller's rows of \<open>workout_routines\<close>
  (each as often as the table has it, none of another user) with \<open>created_at\<close>
  descending; the history does the same for \<open>workout_logs\<close>.
\<close>

theorem lists_are_callers_newest_first:
  "mset (get_workout_routines current_user db) =
     filter_mset (\<lambda>r. r_user_id r = Some (u_id current_user)) (mset (workout_routines db)) \<and>
   sorted_wrt (\<lambda>a b. r_created_at b \<le> r_created_at a) (get_workout_routines current_user db) \<and>
   mset (get_workout_history current_user db) =
     filter_mset (\<lambda>l. l_user_id l = u_id current_user) (mset (workout_logs db)) \<and>
   sorted_wrt (\<lambda>a b. l_created_at b \<le> l_created_at a) (get_workout_history current_user db)"
  by (simp add: get_workout_routines_def get_workout_history_def sorted_desc_sort_key)

theorem lists_are_callers_newest_first_witness:
  "get_workout_routines alice gym_db = [routine_of 3 1 30, routine_of 1 1 10] \<and>
   sorted_wrt (\<lambda>a b. r_created_at b \<le> r_created_at a) (get_workout_routines alice gym_db) \<and>
   get_workout_history bob gym_db = [log_of 2 2 2 50]"
proof -
  have "get_workout_routines alice gym_db = [routine_of 3 1 30, routine_of 1 1 10]"
    by (simp add: get_workout_routines_def gym_db_def routine_of_def alice_def)
  moreover have "get_workout_history bob gym_db = [log_of 2 2 2 50]"
    by (simp add: get_workout_history_def gym_db_def log_of_def bob_def)
  ultimately show ?thesis
    using lists_are_callers_newest_first [of alice gym_db] by simp
qed




end
